theory Spec2Isabelle
  imports Complex_Main "HOL-Library.Word"
begin

unbundle bit_operations_syntax

section \<open>The t-digest header: scale function, centroids, reserved constants\<close>

text \<open>
  The development follows the declarations of \<^verbatim>\<open>tdigest.hpp\<close>. Values of the
  floating-point types (\<^verbatim>\<open>double\<close>, and the template parameter \<^verbatim>\<open>T\<close>) are modelled
  as real numbers: every arithmetic operation is the exact one, without rounding, infinities
  or NaN. \<^verbatim>\<open>std::log\<close> is the natural logarithm \<open>ln\<close> and \<^verbatim>\<open>std::exp\<close> is \<open>exp\<close>.
  Statements about these definitions are statements in exact arithmetic; what the code
  computes where a result leaves the range of \<^verbatim>\<open>double\<close> is the subject of a separate
  set of definitions below.
  Values of \<^verbatim>\<open>uint64_t\<close>, \<^verbatim>\<open>uint16_t\<close> and \<^verbatim>\<open>uint8_t\<close> are machine words of that
  width, so \<open>+\<close> on them wraps around as it does in the code.
\<close>

subsection \<open>\<^verbatim>\<open>struct scale_function\<close>\<close>

text \<open>
  \<^verbatim>\<open>limit(f, x, low, high)\<close>: apply \<open>f\<close> to \<open>x\<close> restricted to \<open>[low, high]\<close>.
\<close>

definition scale_function_limit :: "(real \<Rightarrow> real) \<Rightarrow> real \<Rightarrow> real \<Rightarrow> real \<Rightarrow> real" where
  "scale_function_limit f x low high =
     (if x < low then f low
      else if x > high then f high
      else f x)"

text \<open>
  \<^verbatim>\<open>k(q, normalizer)\<close>: the lambda \<^verbatim>\<open>log(q / (1 - q)) * normalizer\<close> under \<open>limit\<close> with
  the bounds \<^verbatim>\<open>1e-15\<close> and \<^verbatim>\<open>1 - 1e-15\<close>.
\<close>

definition scale_function_k :: "real \<Rightarrow> real \<Rightarrow> real" where
  "scale_function_k q normalizer =
     scale_function_limit (\<lambda>q. ln (q / (1 - q)) * normalizer) q (1 / 10 ^ 15) (1 - 1 / 10 ^ 15)"

text \<open>
  \<^verbatim>\<open>q(k, normalizer)\<close>: \<^verbatim>\<open>w = exp(k / normalizer); return w / (1 + w)\<close>, in exact
  arithmetic. In \<^verbatim>\<open>double\<close> the exponential overflows for large \<open>k / normalizer\<close>; see
  \<open>scale_function_q_double\<close>.
\<close>

definition scale_function_q :: "real \<Rightarrow> real \<Rightarrow> real" where
  "scale_function_q k normalizer = (let w = exp (k / normalizer) in w / (1 + w))"

text \<open>\<^verbatim>\<open>max(q, normalizer)\<close>: \<^verbatim>\<open>q * (1 - q) / normalizer\<close>.\<close>

definition scale_function_max :: "real \<Rightarrow> real \<Rightarrow> real" where
  "scale_function_max q normalizer = q * (1 - q) / normalizer"

text \<open>\<^verbatim>\<open>z(compression, n)\<close>: \<^verbatim>\<open>4 * log(n / compression) + 24\<close>.\<close>

definition scale_function_z :: "real \<Rightarrow> real \<Rightarrow> real" where
  "scale_function_z compression n = 4 * ln (n / compression) + 24"

text \<open>\<^verbatim>\<open>normalizer(compression, n)\<close>: \<^verbatim>\<open>compression / z(compression, n)\<close>.\<close>

definition scale_function_normalizer :: "real \<Rightarrow> real \<Rightarrow> real" where
  "scale_function_normalizer compression n = compression / scale_function_z compression n"

subsection \<open>\<^verbatim>\<open>class tdigest::centroid\<close>\<close>

text \<open>The fields \<^verbatim>\<open>mean_\<close> and \<^verbatim>\<open>weight_\<close> are the record fields \<open>mean\<close> and \<open>weight\<close>.\<close>

record centroid =
  mean :: real
  weight :: "64 word"

text \<open>The conversion of a \<^verbatim>\<open>uint64_t\<close> operand to the floating-point type.\<close>

definition of_u64 :: "64 word \<Rightarrow> real" where
  "of_u64 w = real (unat w)"

definition get_mean :: "centroid \<Rightarrow> real" where
  "get_mean c = mean c"

definition get_weight :: "centroid \<Rightarrow> 64 word" where
  "get_weight c = weight c"

text \<open>
  \<^verbatim>\<open>centroid::add\<close> is two assignments, executed in this order on the object:
  \<^verbatim>\<open>weight_ += other.weight_;\<close> and then
  \<^verbatim>\<open>mean_ += (other.mean_ - mean_) * other.weight_ / weight_;\<close>.
  The second reads the field \<^verbatim>\<open>weight_\<close> that the first has just written. The sum of the
  weights is the 64-bit sum; the mean update is in exact arithmetic, with the exact
  conversion of the weights, and a quotient by zero is zero as everywhere in HOL, where
  the code stores an infinity or a NaN.
\<close>

definition add_weight_stmt :: "centroid \<Rightarrow> centroid \<Rightarrow> centroid" where
  "add_weight_stmt this other = this\<lparr>weight := weight this + weight other\<rparr>"

text \<open>The divisor of the second assignment: the field \<^verbatim>\<open>weight_\<close> of the object, converted.\<close>

definition add_mean_divisor :: "centroid \<Rightarrow> real" where
  "add_mean_divisor this = of_u64 (weight this)"

definition add_mean_stmt :: "centroid \<Rightarrow> centroid \<Rightarrow> centroid" where
  "add_mean_stmt this other =
     this\<lparr>mean := mean this
        + (mean other - mean this) * of_u64 (weight other) / add_mean_divisor this\<rparr>"

definition centroid_add :: "centroid \<Rightarrow> centroid \<Rightarrow> centroid" where
  "centroid_add this other = add_mean_stmt (add_weight_stmt this other) other"

text \<open>\<^verbatim>\<open>struct centroid_cmp\<close>: the strict order on means used for sorting.\<close>

definition centroid_cmp :: "centroid \<Rightarrow> centroid \<Rightarrow> bool" where
  "centroid_cmp a b = (if get_mean a < get_mean b then True else False)"

subsection \<open>The range of \<^verbatim>\<open>double\<close>\<close>

text \<open>
  The definitions above compute with exact real numbers. A \<^verbatim>\<open>double\<close> has a limited range:
  an operation whose exact result has a magnitude of \<open>2 ^ 1024\<close> or more gives an infinity,
  and an operation on infinities or zeros without a determined result gives a NaN, which no
  comparison holds for. The definitions below take these values into account. A result
  within the range is still the exact one (rounding is not modelled) and zero carries no
  sign. They say what \<^verbatim>\<open>q\<close> and the mean update of \<^verbatim>\<open>centroid::add\<close> compute where a result
  leaves the range, which is where the exact definitions do not describe the code.
\<close>

datatype double = Finite real | PosInf | NegInf | QuietNaN

definition double_range :: real where
  "double_range = 2 ^ 1024"

definition double_result :: "real \<Rightarrow> double" where
  "double_result x =
     (if double_range \<le> x then PosInf else if x \<le> - double_range then NegInf else Finite x)"

fun double_sign :: "double \<Rightarrow> real" where
  "double_sign (Finite x) = sgn x"
| "double_sign PosInf = 1"
| "double_sign NegInf = - 1"
| "double_sign QuietNaN = 0"

definition double_infinity :: "real \<Rightarrow> double" where
  "double_infinity s = (if s < 0 then NegInf else PosInf)"

fun double_neg :: "double \<Rightarrow> double" where
  "double_neg (Finite x) = Finite (- x)"
| "double_neg PosInf = NegInf"
| "double_neg NegInf = PosInf"
| "double_neg QuietNaN = QuietNaN"

fun double_add :: "double \<Rightarrow> double \<Rightarrow> double" where
  "double_add (Finite x) (Finite y) = double_result (x + y)"
| "double_add QuietNaN b = QuietNaN"
| "double_add a QuietNaN = QuietNaN"
| "double_add PosInf NegInf = QuietNaN"
| "double_add NegInf PosInf = QuietNaN"
| "double_add PosInf b = PosInf"
| "double_add NegInf b = NegInf"
| "double_add a PosInf = PosInf"
| "double_add a NegInf = NegInf"

definition double_sub :: "double \<Rightarrow> double \<Rightarrow> double" where
  "double_sub a b = double_add a (double_neg b)"

fun double_mul :: "double \<Rightarrow> double \<Rightarrow> double" where
  "double_mul (Finite x) (Finite y) = double_result (x * y)"
| "double_mul QuietNaN b = QuietNaN"
| "double_mul a QuietNaN = QuietNaN"
| "double_mul a b =
     (if double_sign a * double_sign b = 0 then QuietNaN
      else double_infinity (double_sign a * double_sign b))"

fun double_div :: "double \<Rightarrow> double \<Rightarrow> double" where
  "double_div (Finite x) (Finite y) =
     (if y = 0 then (if x = 0 then QuietNaN else double_infinity x) else double_result (x / y))"
| "double_div QuietNaN b = QuietNaN"
| "double_div a QuietNaN = QuietNaN"
| "double_div (Finite x) b = Finite 0"
| "double_div a (Finite y) = double_infinity (double_sign a * (if y < 0 then - 1 else 1))"
| "double_div a b = QuietNaN"


fun double_le :: "double \<Rightarrow> double \<Rightarrow> bool" where
  "double_le (Finite x) (Finite y) \<longleftrightarrow> x \<le> y"
| "double_le QuietNaN b \<longleftrightarrow> False"
| "double_le a QuietNaN \<longleftrightarrow> False"
| "double_le NegInf b \<longleftrightarrow> True"
| "double_le a PosInf \<longleftrightarrow> True"
| "double_le a b \<longleftrightarrow> False"


text \<open>
  The mean that the second assignment of \<^verbatim>\<open>centroid::add\<close> stores, with these values:
  \<^verbatim>\<open>mean_ + (other.mean_ - mean_) * other.weight_ / weight_\<close>, where \<^verbatim>\<open>weight_\<close> is the
  field after the first assignment.
\<close>

definition add_mean_double :: "double \<Rightarrow> double \<Rightarrow> 64 word \<Rightarrow> 64 word \<Rightarrow> double" where
  "add_mean_double this_mean other_mean other_weight this_weight =
     double_add this_mean
       (double_div (double_mul (double_sub other_mean this_mean) (Finite (of_u64 other_weight)))
          (Finite (of_u64 this_weight)))"

subsection \<open>Reserved constants\<close>

definition PREAMBLE_LONGS_EMPTY :: "8 word" where
  "PREAMBLE_LONGS_EMPTY = 1"

definition PREAMBLE_LONGS_NON_EMPTY :: "8 word" where
  "PREAMBLE_LONGS_NON_EMPTY = 2"

definition SERIAL_VERSION :: "8 word" where
  "SERIAL_VERSION = 1"

definition SKETCH_TYPE :: "8 word" where
  "SKETCH_TYPE = 20"

definition COMPAT_DOUBLE :: "8 word" where
  "COMPAT_DOUBLE = 1"

definition COMPAT_FLOAT :: "8 word" where
  "COMPAT_FLOAT = 2"

text \<open>
  \<^verbatim>\<open>enum flags { IS_EMPTY, REVERSE_MERGE }\<close>: an unscoped enumeration without
  initialisers, so the enumerators have the values 0 and 1 in declaration order.
\<close>

datatype flags = IS_EMPTY | REVERSE_MERGE

fun flags_value :: "flags \<Rightarrow> nat" where
  "flags_value IS_EMPTY = 0"
| "flags_value REVERSE_MERGE = 1"

section \<open>The digest engine\<close>

text \<open>
  The header declares the data members and the operations of \<^verbatim>\<open>class tdigest\<close>; the bodies
  of the operations are in \<^verbatim>\<open>tdigest_impl.hpp\<close>, which is not among the sources at hand.
  The data members and the options below follow the header. The operations are modelled from
  the specification of the digest, each under a comment that says so and quotes the part of
  the specification it follows.
\<close>

subsection \<open>Options and data members (from the header)\<close>

definition USE_ALTERNATING_SORT :: bool where
  "USE_ALTERNATING_SORT = True"

definition USE_TWO_LEVEL_COMPRESSION :: bool where
  "USE_TWO_LEVEL_COMPRESSION = True"

definition USE_WEIGHT_LIMIT :: bool where
  "USE_WEIGHT_LIMIT = True"

text \<open>
  The data members, without the allocator. \<^verbatim>\<open>k_\<close> is \<open>sketch_k\<close>, \<^verbatim>\<open>min_\<close> and \<^verbatim>\<open>max_\<close> are
  \<open>min_value\<close> and \<open>max_value\<close>, \<^verbatim>\<open>centroids_\<close> is the compressed array. A digest that has
  seen no observation has no smallest and no largest one: \<open>None\<close> stands for the value
  that \<^verbatim>\<open>min_\<close> or \<^verbatim>\<open>max_\<close> holds then. \<^verbatim>\<open>size_t\<close> capacities are natural numbers.
\<close>

record tdigest =
  reverse_merge :: bool
  sketch_k :: "16 word"
  internal_k :: "16 word"
  min_value :: "real option"
  max_value :: "real option"
  centroids_capacity :: nat
  centroids :: "centroid list"
  centroids_weight :: "64 word"
  buffer_capacity :: nat
  buffer :: "centroid list"
  buffered_weight :: "64 word"

text \<open>The conversion of a \<^verbatim>\<open>uint16_t\<close> operand to \<^verbatim>\<open>double\<close>.\<close>

definition of_u16 :: "16 word \<Rightarrow> real" where
  "of_u16 w = real (unat w)"

subsection \<open>Construction\<close>

text \<open>The error kinds of the specification (section 7).\<close>

datatype error = InvalidArgument | FormatError | IoError | CapacityError

text \<open>
  Modelled from the spec: the least compression parameter that the constructor accepts
  (\<open>k\<close> "must be at least a small positive minimum, e.g. 10"); the constructor itself is
  in the missing implementation file.
\<close>

definition MIN_K :: "16 word" where
  "MIN_K = 10"

text \<open>
  Modelled from the spec: the body of the private constructor
  \<^verbatim>\<open>tdigest(reverse_merge, k, min, max, centroids, total_weight, allocator)\<close>, which the
  header declares "for deserialize". With two-level compression "\<open>internal_k\<close> is set larger
  than \<open>k\<close> (e.g. about \<open>2k\<close>)"; "\<open>compressed_capacity = 2 * internal_k\<close>";
  "\<open>buffer_capacity \<ge> 5 * compressed_capacity\<close> by default". The buffer starts empty.
\<close>

definition tdigest_init ::
  "bool \<Rightarrow> 16 word \<Rightarrow> real option \<Rightarrow> real option \<Rightarrow> centroid list \<Rightarrow> 64 word \<Rightarrow> tdigest" where
  "tdigest_init rm k mn mx cs total_weight =
     (let ik = (if USE_TWO_LEVEL_COMPRESSION then 2 * k else k);
          cap = 2 * unat ik
      in \<lparr>reverse_merge = rm, sketch_k = k, internal_k = ik,
          min_value = mn, max_value = mx,
          centroids_capacity = cap, centroids = cs, centroids_weight = total_weight,
          buffer_capacity = 5 * cap, buffer = [], buffered_weight = 0\<rparr>)"

text \<open>
  Modelled from the spec: the body of the public constructor \<^verbatim>\<open>tdigest(k, allocator)\<close>.
  "A digest is created empty with a chosen \<open>k\<close>"; a \<open>k\<close> below the minimum is an
  \<open>InvalidArgument\<close>.
\<close>

definition tdigest_new :: "16 word \<Rightarrow> error + tdigest" where
  "tdigest_new k =
     (if k < MIN_K then Inl InvalidArgument
      else Inr (tdigest_init False k None None [] 0))"

text \<open>
  Modelled from the spec: the bodies of \<^verbatim>\<open>is_empty\<close> ("true if t-Digest has not seen any
  data", in the header's words), \<^verbatim>\<open>get_total_weight\<close> ("total weight =
  \<open>compressed_weight + buffered_weight\<close>"), \<^verbatim>\<open>get_k\<close>, \<^verbatim>\<open>get_min_value\<close> and
  \<^verbatim>\<open>get_max_value\<close>.
\<close>

definition is_empty :: "tdigest \<Rightarrow> bool" where
  "is_empty d \<longleftrightarrow> centroids d = [] \<and> buffer d = []"

definition get_total_weight :: "tdigest \<Rightarrow> 64 word" where
  "get_total_weight d = centroids_weight d + buffered_weight d"




subsection \<open>Merging the buffer into the compressed array\<close>

text \<open>
  Modelled from the spec: the sort of step 3 of \<^verbatim>\<open>merge_buffered\<close>, "ties broken by
  stable order"; the sorting routine is not part of the header. It is a stable sort by
  insertion under a strict order \<open>lt\<close> such as \<open>centroid_cmp\<close>: an element is placed after
  the elements that are not greater than it, so elements that \<open>lt\<close> does not order keep
  their relative order.
\<close>

fun insort_cmp :: "('a \<Rightarrow> 'a \<Rightarrow> bool) \<Rightarrow> 'a \<Rightarrow> 'a list \<Rightarrow> 'a list" where
  "insort_cmp lt x [] = [x]"
| "insort_cmp lt x (y # ys) = (if lt y x then y # insort_cmp lt x ys else x # y # ys)"

definition stable_sort :: "('a \<Rightarrow> 'a \<Rightarrow> bool) \<Rightarrow> 'a list \<Rightarrow> 'a list" where
  "stable_sort lt xs = foldr (insort_cmp lt) xs []"

text \<open>
  Modelled from the spec: the updates "\<open>min \<leftarrow> min(min, x)\<close>" and "\<open>max \<leftarrow> max(max, x)\<close>"
  of \<^verbatim>\<open>merge_buffered\<close> and \<^verbatim>\<open>update\<close>, on a digest that may have seen no observation
  yet.
\<close>

definition lower_to :: "real option \<Rightarrow> real \<Rightarrow> real option" where
  "lower_to m x = (case m of None \<Rightarrow> Some x | Some y \<Rightarrow> Some (min y x))"

definition raise_to :: "real option \<Rightarrow> real \<Rightarrow> real option" where
  "raise_to m x = (case m of None \<Rightarrow> Some x | Some y \<Rightarrow> Some (max y x))"

text \<open>
  Modelled from the spec: the test of step 6 of \<^verbatim>\<open>merge_buffered\<close>, whose body is in the
  missing implementation file. The projected normalized rank is
  "\<open>q_proj = (weight_so_far + cur.weight + c.weight) / n\<close>". In weight-limit mode "merge
  \<open>c\<close> into \<open>cur\<close> iff \<open>(c.weight + cur.weight) / n \<le> max(q_proj, N)\<close>"; in rank-limit
  mode "merge iff \<open>(weight_so_far + cur.weight + c.weight) / n \<le> q_limit\<close>". "If two
  centroids have equal mean, they are merged unconditionally". The weights enter these
  quotients as floating-point values.
\<close>

definition q_proj :: "real \<Rightarrow> real \<Rightarrow> centroid \<Rightarrow> centroid \<Rightarrow> real" where
  "q_proj n weight_so_far cur c = (weight_so_far + of_u64 (weight cur) + of_u64 (weight c)) / n"

definition should_merge :: "real \<Rightarrow> real \<Rightarrow> real \<Rightarrow> real \<Rightarrow> centroid \<Rightarrow> centroid \<Rightarrow> bool" where
  "should_merge n N weight_so_far q_limit cur c \<longleftrightarrow>
     mean c = mean cur
     \<or> (if USE_WEIGHT_LIMIT
        then (of_u64 (weight c) + of_u64 (weight cur)) / n
               \<le> scale_function_max (q_proj n weight_so_far cur c) N
        else q_proj n weight_so_far cur c \<le> q_limit)"

text \<open>
  Modelled from the spec: steps 5 to 7 of \<^verbatim>\<open>merge_buffered\<close>, the scan over the sorted
  centroids after the first. "On merge: \<open>cur \<leftarrow> combine(cur, c)\<close>", which is
  \<^verbatim>\<open>centroid::add\<close>. "On no-merge: push \<open>cur\<close> to \<open>R\<close>, set
  \<open>weight_so_far += cur.weight\<close>, \<open>cur \<leftarrow> c\<close>, and in rank-limit mode recompute
  \<open>q_limit = q(k(weight_so_far / n, N) + 1, N)\<close>". "Push final \<open>cur\<close> to \<open>R\<close>".
\<close>

fun coalesce :: "real \<Rightarrow> real \<Rightarrow> real \<Rightarrow> real \<Rightarrow> centroid \<Rightarrow> centroid list \<Rightarrow> centroid list" where
  "coalesce n N weight_so_far q_limit cur [] = [cur]"
| "coalesce n N weight_so_far q_limit cur (c # cs) =
     (if should_merge n N weight_so_far q_limit cur c
      then coalesce n N weight_so_far q_limit (centroid_add cur c) cs
      else (let weight_so_far' = weight_so_far + of_u64 (weight cur);
                q_limit' = (if USE_WEIGHT_LIMIT then q_limit
                            else scale_function_q
                                   (scale_function_k (weight_so_far' / n) N + 1) N)
            in cur # coalesce n N weight_so_far' q_limit' c cs))"

text \<open>
  Modelled from the spec: \<^verbatim>\<open>merge_buffered\<close> (section 4.3), for a given compression
  \<open>kk\<close>. (1) "If \<open>buffer\<close> is empty, return." (2) "Append every centroid from
  \<open>compressed\<close> into \<open>buffer\<close>." (3) "Sort \<open>buffer\<close> by mean, ascending. If the
  alternating sort flag is on and \<open>reverse_merge\<close> is true, sort descending instead; flip
  \<open>reverse_merge\<close> after each call. Ties broken by stable order." (4) "\<open>n \<leftarrow>
  compressed_weight + buffered_weight\<close>. Compute \<open>N = normalizer(internal_k, n)\<close>."
  (5) "\<open>cur = buffer[0]\<close>, \<open>weight_so_far = 0\<close>, \<open>q_limit = q(k(0, N) + 1, N)\<close>."
  (6, 7) the scan. (8) "Reverse \<open>R\<close> if the sort in step 3 was descending." (9) "Update
  \<open>min \<leftarrow> min(min, R[0].mean)\<close>, \<open>max \<leftarrow> max(max, R[last].mean)\<close>, \<open>compressed \<leftarrow>
  R\<close>, \<open>compressed_weight \<leftarrow> n\<close>, clear \<open>buffer\<close>, \<open>buffered_weight \<leftarrow> 0\<close>."
  The sum of step 4 is a sum of two \<^verbatim>\<open>uint64_t\<close> fields.
\<close>

definition sort_reversed :: "tdigest \<Rightarrow> bool" where
  "sort_reversed d \<longleftrightarrow> USE_ALTERNATING_SORT \<and> reverse_merge d"

text \<open>Modelled from the spec: steps 2 and 3 of \<^verbatim>\<open>merge_buffered\<close>, all centroids, sorted.\<close>

definition sorted_buffer :: "tdigest \<Rightarrow> centroid list" where
  "sorted_buffer d =
     (let all = buffer d @ centroids d
      in if sort_reversed d then stable_sort (\<lambda>a b. centroid_cmp b a) all
         else stable_sort centroid_cmp all)"

text \<open>
  Modelled from the spec: steps 4 to 7 of \<^verbatim>\<open>merge_buffered\<close>, the total weight, the
  normalizer and the scan.
\<close>

definition merge_scan :: "16 word \<Rightarrow> tdigest \<Rightarrow> centroid list" where
  "merge_scan kk d =
     (let n = centroids_weight d + buffered_weight d;
          N = scale_function_normalizer (of_u16 kk) (of_u64 n)
      in case sorted_buffer d of
           [] \<Rightarrow> []
         | cur # rest \<Rightarrow>
             coalesce (of_u64 n) N 0 (scale_function_q (scale_function_k 0 N + 1) N) cur rest)"

text \<open>Modelled from the spec: step 8 of \<^verbatim>\<open>merge_buffered\<close>, the result in ascending order.\<close>

definition merge_result :: "16 word \<Rightarrow> tdigest \<Rightarrow> centroid list" where
  "merge_result kk d = (if sort_reversed d then rev (merge_scan kk d) else merge_scan kk d)"

text \<open>Modelled from the spec: steps 1 and 9 of \<^verbatim>\<open>merge_buffered\<close>.\<close>

definition merge_pass :: "16 word \<Rightarrow> tdigest \<Rightarrow> tdigest" where
  "merge_pass kk d =
     (if buffer d = [] then d
      else
        let R = merge_result kk d
        in d\<lparr>reverse_merge := (if USE_ALTERNATING_SORT then \<not> reverse_merge d
                               else reverse_merge d),
             min_value := (case R of [] \<Rightarrow> min_value d
                           | c # _ \<Rightarrow> lower_to (min_value d) (mean c)),
             max_value := (case R of [] \<Rightarrow> max_value d
                           | _ # _ \<Rightarrow> raise_to (max_value d) (mean (last R))),
             centroids := R,
             centroids_weight := centroids_weight d + buffered_weight d,
             buffer := [],
             buffered_weight := 0\<rparr>)"

text \<open>
  Modelled from the spec: \<^verbatim>\<open>merge_buffered\<close> itself, the pass with the compression
  \<open>internal_k\<close> of step 4.
\<close>

definition merge_buffered :: "tdigest \<Rightarrow> tdigest" where
  "merge_buffered d = merge_pass (internal_k d) d"

text \<open>
  Modelled from the spec: \<^verbatim>\<open>compress\<close>, whose body is in the missing implementation
  file. "\<open>compress()\<close> forces \<open>merge_buffered()\<close> and, if two-level compression is enabled,
  runs a second pass using \<open>k\<close> instead of \<open>internal_k\<close>." \<open>merge_buffered\<close> is "the only
  mutator of \<open>compressed\<close>", so the second pass is \<open>merge_buffered\<close> with the compression
  \<open>k\<close>. The first pass has emptied the buffer, and \<open>merge_buffered\<close> returns at its
  step 1 on an empty buffer: in this reading the second pass changes nothing, and a digest
  that has been compressed, written and read back is written again in the same bytes.
\<close>

definition tdigest_compress :: "tdigest \<Rightarrow> tdigest" where
  "tdigest_compress d =
     (let d1 = merge_buffered d
      in if USE_TWO_LEVEL_COMPRESSION then merge_pass (sketch_k d1) d1 else d1)"

subsection \<open>Updates\<close>

text \<open>
  Modelled from the spec: \<^verbatim>\<open>append_buffer(mean, weight)\<close> "triggers \<open>merge_buffered\<close> when
  \<open>buffer.len() == buffer_capacity\<close>"; \<open>buffered_weight\<close> is the "sum of weights in
  \<open>buffer\<close>".
\<close>

definition append_buffer :: "real \<Rightarrow> 64 word \<Rightarrow> tdigest \<Rightarrow> tdigest" where
  "append_buffer m w d =
     (let d1 = d\<lparr>buffer := buffer d @ [\<lparr>mean = m, weight = w\<rparr>],
                 buffered_weight := buffered_weight d + w\<rparr>
      in if length (buffer d1) = buffer_capacity d1 then merge_buffered d1 else d1)"

text \<open>
  Modelled from the spec: \<^verbatim>\<open>update(value)\<close>, whose body is in the missing implementation
  file: it "appends a singleton centroid of weight 1"; \<open>min\<close> and \<open>max\<close> are the "smallest
  and largest raw observations ever seen". A real number is never NaN, so nothing is rejected.
\<close>

definition tdigest_update :: "real \<Rightarrow> tdigest \<Rightarrow> tdigest" where
  "tdigest_update v d =
     append_buffer v 1
       (d\<lparr>min_value := lower_to (min_value d) v, max_value := raise_to (max_value d) v\<rparr>)"


subsection \<open>Sequences of operations\<close>




text \<open>The compressed array is sorted ascending by mean.\<close>

definition sorted_by_mean :: "centroid list \<Rightarrow> bool" where
  "sorted_by_mean cs \<longleftrightarrow> sorted (map mean cs)"

text \<open>
  The weight of a list of centroids as a natural number, without wrap-around, and the
  condition that every centroid stands for at least one observation.
\<close>

definition exact_weight :: "centroid list \<Rightarrow> nat" where
  "exact_weight cs = sum_list (map (\<lambda>c. unat (weight c)) cs)"

definition positive_weights :: "centroid list \<Rightarrow> bool" where
  "positive_weights cs \<longleftrightarrow> list_all (\<lambda>c. 0 < weight c) cs"

definition all_centroids :: "tdigest \<Rightarrow> centroid list" where
  "all_centroids d = centroids d @ buffer d"



subsection \<open>Invariants of the data model\<close>

text \<open>
  Modelled from the spec: the invariants of the data model (section 3), which the missing
  implementation maintains: the compressed array is sorted by mean;
  each weight field is the (64-bit) sum of the weights of its array; every centroid lies
  between \<open>min\<close> and \<open>max\<close>, and a digest without centroids has seen no observation;
  every centroid stands for at least one observation ("a centroid summarizes a contiguous
  set of observations", and the total weight "equals the count of \<open>update\<close> calls plus
  merged-in weights").
\<close>

definition weights_consistent :: "tdigest \<Rightarrow> bool" where
  "weights_consistent d \<longleftrightarrow>
     centroids_weight d = sum_list (map weight (centroids d))
     \<and> buffered_weight d = sum_list (map weight (buffer d))"

definition within_range :: "tdigest \<Rightarrow> bool" where
  "within_range d \<longleftrightarrow>
     (case (min_value d, max_value d) of
        (Some lo, Some hi) \<Rightarrow>
          all_centroids d \<noteq> [] \<and> list_all (\<lambda>c. lo \<le> mean c \<and> mean c \<le> hi) (all_centroids d)
      | (None, None) \<Rightarrow> all_centroids d = []
      | _ \<Rightarrow> False)"

definition digest_invariant :: "tdigest \<Rightarrow> bool" where
  "digest_invariant d \<longleftrightarrow>
     sorted_by_mean (centroids d) \<and> weights_consistent d \<and> within_range d
     \<and> positive_weights (all_centroids d)"


subsection \<open>Queries\<close>

text \<open>The result of a query: a number or a quiet NaN.\<close>

datatype fp = NaN | Num real

text \<open>
  Modelled from the spec: \<^verbatim>\<open>get_rank(value)\<close>, whose body is in the missing implementation
  file (section 4.4). "Both queries first call \<open>compress()\<close>." "If empty: quiet NaN. If
  \<open>v < min\<close>: 0. If \<open>v > max\<close>: 1. If \<open>v == min\<close> (and \<open>v \<le> compressed[0].mean\<close>):
  \<open>0.5 / n\<close>. If \<open>v == max\<close>: \<open>1 - 0.5 / n\<close>. If there is exactly one centroid: \<open>0.5\<close>
  when \<open>v\<close> equals that mean. Otherwise" the rank is interpolated between the two adjacent
  centroids around \<open>v\<close>. For the interpolation the specification defers to the reference
  implementation; it is the parameter \<open>interpolate\<close>. The function returns the rank only:
  the header declares it \<^verbatim>\<open>const\<close>.
\<close>

definition get_rank :: "(tdigest \<Rightarrow> real \<Rightarrow> real) \<Rightarrow> tdigest \<Rightarrow> real \<Rightarrow> fp" where
  "get_rank interpolate d v =
     (let d' = tdigest_compress d;
          n = of_u64 (get_total_weight d')
      in if is_empty d' then NaN
         else case (min_value d', max_value d', centroids d') of
                (Some lo, Some hi, c0 # cs) \<Rightarrow>
                  if v < lo then Num 0
                  else if v > hi then Num 1
                  else if v = lo \<and> v \<le> mean c0 then Num ((1 / 2) / n)
                  else if v = hi then Num (1 - (1 / 2) / n)
                  else if cs = [] \<and> v = mean c0 then Num (1 / 2)
                  else Num (interpolate d' v)
              | _ \<Rightarrow> NaN)"

text \<open>
  Modelled from the spec: \<^verbatim>\<open>get_quantile(rank)\<close>, whose body is in the missing
  implementation file: "NaN if empty; \<open>rank\<close> outside \<open>[0, 1]\<close>: error"; "\<open>r == 0\<close>:
  \<open>min\<close>; \<open>r == 1\<close>: \<open>max\<close>"; otherwise the quantile is interpolated between the means
  of the centroids around the weight \<open>r * n\<close>, which is the parameter \<open>interpolate\<close> as for
  \<open>get_rank\<close>.
\<close>

definition get_quantile :: "(tdigest \<Rightarrow> real \<Rightarrow> real) \<Rightarrow> tdigest \<Rightarrow> real \<Rightarrow> error + fp" where
  "get_quantile interpolate d r =
     (let d' = tdigest_compress d
      in if is_empty d' then Inr NaN
         else if r < 0 \<or> r > 1 then Inl InvalidArgument
         else case (min_value d', max_value d') of
                (Some lo, Some hi) \<Rightarrow>
                  if r = 0 then Inr (Num lo)
                  else if r = 1 then Inr (Num hi)
                  else Inr (Num (interpolate d' r))
              | _ \<Rightarrow> Inr NaN)"

subsection \<open>Two digests at the limit of the weight type\<close>




subsection \<open>The merge pass in \<^verbatim>\<open>double\<close> arithmetic\<close>

text \<open>
  Modelled from the spec: steps 3 to 8 of \<^verbatim>\<open>merge_buffered\<close> once more, on centroids whose
  means are values of a \<^verbatim>\<open>double\<close> with its infinities and NaN. The centroid, its \<^verbatim>\<open>add\<close>
  and the comparison of \<^verbatim>\<open>centroid_cmp\<close> are the header's; the test for a merge compares
  the means for equality and otherwise depends on the weights only, as above. The pass
  takes the compression, the direction of the sort, the total weight \<open>n\<close> and all the
  centroids, and returns the array \<open>R\<close>.
\<close>

record centroid_double =
  mean_double :: double
  weight_double :: "64 word"

definition centroid_add_double :: "centroid_double \<Rightarrow> centroid_double \<Rightarrow> centroid_double" where
  "centroid_add_double this other =
     (let w = weight_double this + weight_double other
      in \<lparr>mean_double = add_mean_double (mean_double this) (mean_double other)
                          (weight_double other) w,
          weight_double = w\<rparr>)"

fun double_less :: "double \<Rightarrow> double \<Rightarrow> bool" where
  "double_less (Finite x) (Finite y) \<longleftrightarrow> x < y"
| "double_less QuietNaN b \<longleftrightarrow> False"
| "double_less a QuietNaN \<longleftrightarrow> False"
| "double_less a NegInf \<longleftrightarrow> False"
| "double_less PosInf b \<longleftrightarrow> False"
| "double_less a b \<longleftrightarrow> True"

fun double_equal :: "double \<Rightarrow> double \<Rightarrow> bool" where
  "double_equal (Finite x) (Finite y) \<longleftrightarrow> x = y"
| "double_equal PosInf PosInf \<longleftrightarrow> True"
| "double_equal NegInf NegInf \<longleftrightarrow> True"
| "double_equal a b \<longleftrightarrow> False"

definition centroid_cmp_double :: "centroid_double \<Rightarrow> centroid_double \<Rightarrow> bool" where
  "centroid_cmp_double a b = (if double_less (mean_double a) (mean_double b) then True else False)"

definition should_merge_double ::
  "real \<Rightarrow> real \<Rightarrow> real \<Rightarrow> real \<Rightarrow> centroid_double \<Rightarrow> centroid_double \<Rightarrow> bool" where
  "should_merge_double n N weight_so_far q_limit cur c \<longleftrightarrow>
     double_equal (mean_double c) (mean_double cur)
     \<or> (let q_proj = (weight_so_far + of_u64 (weight_double cur) + of_u64 (weight_double c)) / n
        in if USE_WEIGHT_LIMIT
           then (of_u64 (weight_double c) + of_u64 (weight_double cur)) / n
                  \<le> scale_function_max q_proj N
           else q_proj \<le> q_limit)"

fun coalesce_double ::
  "real \<Rightarrow> real \<Rightarrow> real \<Rightarrow> real \<Rightarrow> centroid_double \<Rightarrow> centroid_double list
     \<Rightarrow> centroid_double list" where
  "coalesce_double n N weight_so_far q_limit cur [] = [cur]"
| "coalesce_double n N weight_so_far q_limit cur (c # cs) =
     (if should_merge_double n N weight_so_far q_limit cur c
      then coalesce_double n N weight_so_far q_limit (centroid_add_double cur c) cs
      else (let weight_so_far' = weight_so_far + of_u64 (weight_double cur);
                q_limit' = (if USE_WEIGHT_LIMIT then q_limit
                            else scale_function_q
                                   (scale_function_k (weight_so_far' / n) N + 1) N)
            in cur # coalesce_double n N weight_so_far' q_limit' c cs))"

definition merge_result_double ::
  "16 word \<Rightarrow> bool \<Rightarrow> 64 word \<Rightarrow> centroid_double list \<Rightarrow> centroid_double list" where
  "merge_result_double kk reversed n all =
     (let N = scale_function_normalizer (of_u16 kk) (of_u64 n);
          sorted_all = (if reversed then stable_sort (\<lambda>a b. centroid_cmp_double b a) all
                        else stable_sort centroid_cmp_double all)
      in case sorted_all of
           [] \<Rightarrow> []
         | cur # rest \<Rightarrow>
             (let R = coalesce_double (of_u64 n) N 0
                        (scale_function_q (scale_function_k 0 N + 1) N) cur rest
              in if reversed then rev R else R))"

text \<open>
  The buffer of a digest after \<^verbatim>\<open>update(- 2 ^ 1023)\<close> and 19 times \<^verbatim>\<open>update(2 ^ 1023)\<close>.
\<close>

definition overflow_buffer :: "centroid_double list" where
  "overflow_buffer =
     \<lparr>mean_double = Finite (- (double_range / 2)), weight_double = 1\<rparr>
     # replicate 19 \<lparr>mean_double = Finite (double_range / 2), weight_double = 1\<rparr>"

section \<open>The serialization codec\<close>

text \<open>
  \<^verbatim>\<open>serialize\<close> and \<^verbatim>\<open>deserialize\<close> are declared in the header; their bodies are in the
  missing implementation file and are modelled from section 4.5 of the specification. The
  byte vector is a list of bytes.
\<close>

type_synonym byte = "8 word"

subsection \<open>Fixed-width fields\<close>

text \<open>
  Modelled from the spec: the integer fields of the native format, "little-endian
  throughout": an unsigned integer in \<open>n\<close> bytes, least significant byte first, and its
  value.
\<close>

fun le_bytes :: "nat \<Rightarrow> nat \<Rightarrow> byte list" where
  "le_bytes 0 v = []"
| "le_bytes (Suc n) v = of_nat (v mod 256) # le_bytes n (v div 256)"

fun from_le :: "byte list \<Rightarrow> nat" where
  "from_le [] = 0"
| "from_le (b # bs) = unat b + 256 * from_le bs"

text \<open>
  Modelled from the spec: the arrays of the native format, \<open>len\<close> fields of the same
  size one after the other; the first \<open>n\<close> fields of \<open>sz\<close> bytes each.
\<close>

fun chunks :: "nat \<Rightarrow> nat \<Rightarrow> byte list \<Rightarrow> byte list list" where
  "chunks 0 sz bs = []"
| "chunks (Suc n) sz bs = take sz bs # chunks n sz (drop sz bs)"

text \<open>
  Modelled from the spec: the fields of "\<open>sizeof(F)\<close>" bytes that hold a value of the
  floating-point type \<open>F\<close>. The means of the model are real
  numbers, which no fixed number of bytes can hold in general, so the layout of \<open>F\<close> is a
  parameter: the size of a value, the bytes of a value and the value of some bytes, where
  \<open>None\<close> is a value of \<open>F\<close> that is not a finite number. A value is representable when
  its bytes have the size of \<open>F\<close> and give the value back.
\<close>

record float_format =
  sizeof_F :: nat
  encode_F :: "real option \<Rightarrow> byte list"
  decode_F :: "byte list \<Rightarrow> real option"

definition representable :: "float_format \<Rightarrow> real option \<Rightarrow> bool" where
  "representable fmt x \<longleftrightarrow>
     length (encode_F fmt x) = sizeof_F fmt \<and> decode_F fmt (encode_F fmt x) = x"




subsection \<open>Writing\<close>

text \<open>
  Modelled from the spec: the flags byte that \<^verbatim>\<open>serialize\<close> writes, "flags bitmap: bit 0 =
  \<open>is_empty\<close>, bit 1 = \<open>reverse_merge\<close>"; the positions are the values of the enumerators
  of \<^verbatim>\<open>enum flags\<close>.
\<close>

definition flags_byte :: "bool \<Rightarrow> bool \<Rightarrow> byte" where
  "flags_byte em rm =
     (if em then push_bit (flags_value IS_EMPTY) 1 else 0)
     OR (if rm then push_bit (flags_value REVERSE_MERGE) 1 else 0)"

text \<open>
  Modelled from the spec: offsets 0 to 7 of the native format: "preamble longs (1 if empty,
  2 otherwise)", "serial version (= 1)", "sketch type (= 20)", the flags, \<open>k\<close> in two bytes,
  and two bytes "unused / reserved zero".
\<close>

definition preamble :: "tdigest \<Rightarrow> byte list" where
  "preamble d =
     [if is_empty d then PREAMBLE_LONGS_EMPTY else PREAMBLE_LONGS_NON_EMPTY,
      SERIAL_VERSION, SKETCH_TYPE, flags_byte (is_empty d) (reverse_merge d)]
     @ le_bytes 2 (unat (sketch_k d)) @ [0, 0]"

text \<open>
  Modelled from the spec: the bytes of a digest whose buffer has been drained. "Empty digest
  ends after the preamble (offset 8)." Otherwise follow \<open>compressed.len()\<close> in four bytes,
  \<open>buffer.len()\<close> in four bytes, the total weight \<open>n\<close> in eight bytes, \<open>min\<close>, \<open>max\<close>,
  the "means in ascending order" and the "weights in the same order", eight bytes each.
\<close>

definition write_digest :: "float_format \<Rightarrow> tdigest \<Rightarrow> byte list" where
  "write_digest fmt d =
     (if is_empty d then preamble d
      else preamble d
        @ le_bytes 4 (length (centroids d))
        @ le_bytes 4 (length (buffer d))
        @ le_bytes 8 (unat (get_total_weight d))
        @ encode_F fmt (min_value d)
        @ encode_F fmt (max_value d)
        @ concat (map (\<lambda>c. encode_F fmt (Some (mean c))) (centroids d))
        @ concat (map (\<lambda>c. le_bytes 8 (unat (weight c))) (centroids d)))"

text \<open>
  Modelled from the spec: \<^verbatim>\<open>serialize(header_size_bytes)\<close> with its default argument 0,
  whose body is in the missing implementation file. "Write \<open>compress()\<close> first so \<open>buffer\<close>
  is empty." A number of centroids that the four-byte field cannot hold is a
  \<open>CapacityError\<close> ("requested serialized size exceeds implementation limits").
\<close>

definition serialize :: "float_format \<Rightarrow> tdigest \<Rightarrow> error + byte list" where
  "serialize fmt d =
     (let d' = tdigest_compress d
      in if 2 ^ 32 \<le> length (centroids d') then Inl CapacityError
         else Inr (write_digest fmt d'))"

subsection \<open>Reading\<close>

text \<open>
  Modelled from the spec: the "means in ascending order" as \<^verbatim>\<open>deserialize\<close> reads them; a
  mean that is not a finite number has no counterpart in the model.
\<close>

fun read_means :: "float_format \<Rightarrow> byte list list \<Rightarrow> real list option" where
  "read_means fmt [] = Some []"
| "read_means fmt (b # bs) =
     (case decode_F fmt b of
        None \<Rightarrow> None
      | Some m \<Rightarrow> (case read_means fmt bs of None \<Rightarrow> None | Some ms \<Rightarrow> Some (m # ms)))"

text \<open>
  Modelled from the spec: the part of \<^verbatim>\<open>deserialize\<close> that reads a non-empty digest from
  offset 8 on. Deserialization "validates version, type, sizes, and invariant #3" and fails
  with a \<open>FormatError\<close> on an "impossible length, or inconsistent declared weight". The
  digest is built by the private constructor.
\<close>

definition read_body :: "float_format \<Rightarrow> bool \<Rightarrow> 16 word \<Rightarrow> byte list \<Rightarrow> error + tdigest" where
  "read_body fmt rm k body =
     (if length body < 16 then Inl FormatError
      else
        let len = from_le (take 4 body);
            n = (of_nat (from_le (take 8 (drop 8 body))) :: 64 word);
            sz = sizeof_F fmt;
            payload = drop 16 body
        in if len = 0 \<or> length payload < 2 * sz + len * sz + len * 8 then Inl FormatError
           else
             let lo = decode_F fmt (take sz payload);
                 hi = decode_F fmt (take sz (drop sz payload));
                 mean_fields = chunks len sz (drop (2 * sz) payload);
                 weight_fields = chunks len 8 (drop (2 * sz + len * sz) payload);
                 weights = map (\<lambda>b. (of_nat (from_le b) :: 64 word)) weight_fields
             in case read_means fmt mean_fields of
                  None \<Rightarrow> Inl FormatError
                | Some means \<Rightarrow>
                    if sum_list weights \<noteq> n then Inl FormatError
                    else Inr (tdigest_init rm k lo hi
                           (map (\<lambda>(m, w). \<lparr>mean = m, weight = w\<rparr>) (zip means weights)) n))"

text \<open>
  Modelled from the spec: \<^verbatim>\<open>deserialize(bytes, size)\<close>, whose body is in the missing
  implementation file. "The codec selects layout by the first sketch-type byte it reads": a
  sketch type of \<open>COMPAT_DOUBLE\<close> or \<open>COMPAT_FLOAT\<close> selects the compatibility format,
  whose layout the specification does not give; its reader is the parameter
  \<open>deserialize_compat\<close>. A \<open>FormatError\<close> reports "an unrecognized version, sketch type,
  flag combination".
\<close>

definition deserialize ::
  "float_format \<Rightarrow> (byte list \<Rightarrow> error + tdigest) \<Rightarrow> byte list \<Rightarrow> error + tdigest" where
  "deserialize fmt deserialize_compat bs =
     (case bs of
        preamble_longs # serial_version # sketch_type # flags # rest \<Rightarrow>
          if length rest < 4 then Inl FormatError
          else if sketch_type = COMPAT_DOUBLE \<or> sketch_type = COMPAT_FLOAT
            then deserialize_compat bs
          else if sketch_type \<noteq> SKETCH_TYPE \<or> serial_version \<noteq> SERIAL_VERSION
            then Inl FormatError
          else if drop_bit 2 flags \<noteq> 0 then Inl FormatError
          else
            let em = bit flags (flags_value IS_EMPTY);
                rm = bit flags (flags_value REVERSE_MERGE);
                k = (of_nat (from_le (take 2 rest)) :: 16 word)
            in if preamble_longs
                    \<noteq> (if em then PREAMBLE_LONGS_EMPTY else PREAMBLE_LONGS_NON_EMPTY)
               then Inl FormatError
               else if em then Inr (tdigest_init rm k None None [] 0)
               else read_body fmt rm k (drop 4 rest)
      | _ \<Rightarrow> Inl FormatError)"

text \<open>The values of type \<open>F\<close> that the bytes of a digest hold.\<close>

definition wire_values :: "tdigest \<Rightarrow> real option list" where
  "wire_values d =
     (if is_empty d then []
      else [min_value d, max_value d] @ map (\<lambda>c. Some (mean c)) (centroids d))"

subsection \<open>An example of a format\<close>

text \<open>
  The statements about digests hold for every format; the statements about concrete digests
  need one, and use a simple format of nine bytes that rounds: a number is stored as a
  byte 0 followed by its integer part, modulo \<open>2 ^ 64\<close>, as a little-endian integer, and
  a first byte other than 0 marks a value that is not a finite number. The values of this
  format are the natural numbers below \<open>2 ^ 64\<close>.
\<close>

definition integer_format :: float_format where
  "integer_format =
     \<lparr>sizeof_F = 9,
      encode_F = (\<lambda>x. case x of
                         None \<Rightarrow> 255 # le_bytes 8 0
                       | Some v \<Rightarrow> 0 # le_bytes 8 (nat \<lfloor>v\<rfloor>)),
      decode_F = (\<lambda>bs. case bs of
                          [] \<Rightarrow> None
                        | tag # rest \<Rightarrow> if tag = 0 then Some (real (from_le rest)) else None)\<rparr>"


section \<open>Properties of the scale function\<close>

lemma scale_function_k_unfold:
  "scale_function_k q N =
     ln (max (1 / 10 ^ 15) (min q (1 - 1 / 10 ^ 15))
          / (1 - max (1 / 10 ^ 15) (min q (1 - 1 / 10 ^ 15)))) * N"
  by (simp add: scale_function_k_def scale_function_limit_def max_def min_def)




lemma scale_function_q_logit:
  assumes "N \<noteq> 0" and "0 < x" and "x < 1"
  shows "scale_function_q (ln (x / (1 - x)) * N) N = x"
proof -
  have "0 < x / (1 - x)" using assms by simp
  then have "exp (ln (x / (1 - x)) * N / N) = x / (1 - x)" using assms(1) by simp
  then show ?thesis using assms unfolding scale_function_q_def Let_def by (simp add: field_simps)
qed

text \<open>
  Claim C3. For every \<open>q\<close> in \<open>[0, 1]\<close> and every normalizer \<open>N\<close>, \<open>k(q, N)\<close> is
  \<open>ln (c / (1 - c)) * N\<close> where \<open>c\<close> is \<open>q\<close> clamped to \<open>[1e-15, 1 - 1e-15]\<close>: below the
  interval \<open>k\<close> takes its value at the lower endpoint, above it the value at the upper
  endpoint, and inside it the value at \<open>q\<close> itself.
\<close>

theorem scale_function_k_clamped:
  assumes "0 \<le> q" and "q \<le> 1"
  shows "(let c = max (1 / 10 ^ 15) (min q (1 - 1 / 10 ^ 15))
          in scale_function_k q N = ln (c / (1 - c)) * N)
       \<and> (q < 1 / 10 ^ 15 \<longrightarrow> scale_function_k q N = scale_function_k (1 / 10 ^ 15) N)
       \<and> (1 - 1 / 10 ^ 15 < q \<longrightarrow> scale_function_k q N = scale_function_k (1 - 1 / 10 ^ 15) N)
       \<and> (1 / 10 ^ 15 \<le> q \<and> q \<le> 1 - 1 / 10 ^ 15 \<longrightarrow> scale_function_k q N = ln (q / (1 - q)) * N)"
  by (simp add: scale_function_k_def scale_function_limit_def max_def min_def)

theorem scale_function_k_clamped_witness:
  "scale_function_k 0 2 = scale_function_k (1 / 10 ^ 15) 2
   \<and> scale_function_k 1 2 = scale_function_k (1 - 1 / 10 ^ 15) 2
   \<and> scale_function_k (1 / 2) 2 = ln ((1 / 2) / (1 - 1 / 2)) * 2"
  using scale_function_k_clamped [of 0 2] scale_function_k_clamped [of 1 2]
    scale_function_k_clamped [of "1 / 2" 2]
  by simp

text \<open>
  Claim C4. For every compression \<open>delta > 0\<close> and total weight \<open>n > 0\<close> the normalizer is
  \<open>delta / (4 * ln (n / delta) + 24)\<close>.
\<close>

theorem scale_function_normalizer_formula:
  assumes "0 < delta" and "0 < n"
  shows "scale_function_normalizer delta n = delta / (4 * ln (n / delta) + 24)"
  by (simp add: scale_function_normalizer_def scale_function_z_def)

theorem scale_function_normalizer_formula_witness:
  "scale_function_normalizer 100 100 = 25 / 6"
  using scale_function_normalizer_formula [of 100 100] by simp











text \<open>
  Claim C9. For every normalizer \<open>N > 0\<close> and every \<open>q0\<close> in \<open>[1e-15, 1 - 1e-15]\<close>,
  \<open>q(k(q0, N), N) = q0\<close> in exact real arithmetic; for \<open>q0\<close> outside that interval the
  round trip returns the nearest endpoint of the interval.
\<close>

theorem scale_function_round_trip:
  assumes "0 < N"
  shows "(1 / 10 ^ 15 \<le> q0 \<and> q0 \<le> 1 - 1 / 10 ^ 15
            \<longrightarrow> scale_function_q (scale_function_k q0 N) N = q0)
       \<and> (q0 < 1 / 10 ^ 15
            \<longrightarrow> scale_function_q (scale_function_k q0 N) N = 1 / 10 ^ 15)
       \<and> (1 - 1 / 10 ^ 15 < q0
            \<longrightarrow> scale_function_q (scale_function_k q0 N) N = 1 - 1 / 10 ^ 15)"
proof -
  let ?c = "max (1 / 10 ^ 15) (min q0 (1 - 1 / 10 ^ 15)) :: real"
  have "0 < ?c" and "?c < 1" by (simp_all add: max_def min_def)
  with assms have "scale_function_q (ln (?c / (1 - ?c)) * N) N = ?c"
    by (intro scale_function_q_logit) simp_all
  then have "scale_function_q (scale_function_k q0 N) N = ?c"
    by (simp only: scale_function_k_unfold)
  then show ?thesis by (simp add: max_def min_def)
qed

theorem scale_function_round_trip_witness:
  "scale_function_q (scale_function_k (1 / 4) 3) 3 = 1 / 4
   \<and> scale_function_q (scale_function_k 0 3) 3 = 1 / 10 ^ 15
   \<and> scale_function_q (scale_function_k 1 3) 3 = 1 - 1 / 10 ^ 15"
  using scale_function_round_trip [of 3 "1 / 4"] scale_function_round_trip [of 3 0]
    scale_function_round_trip [of 3 1]
  by simp

section \<open>Properties of \<^verbatim>\<open>centroid::add\<close>\<close>

lemma of_u64_0_iff: "of_u64 w = 0 \<longleftrightarrow> w = 0"
  by (simp add: of_u64_def unsigned_eq_0_iff)

lemma centroid_add_fields:
  "weight (centroid_add this other) = weight this + weight other"
  "mean (centroid_add this other) =
     mean this + (mean other - mean this) * of_u64 (weight other)
       / of_u64 (weight this + weight other)"
  by (simp_all add: centroid_add_def add_mean_stmt_def add_weight_stmt_def add_mean_divisor_def)

lemma unat_weight_sum:
  fixes a b :: "64 word"
  assumes "unat a + unat b < 2 ^ 64"
  shows "unat (a + b) = unat a + unat b"
  using assms by (simp add: unat_add_lem [THEN iffD1])



lemma of_u64_add:
  assumes "unat a + unat b < 2 ^ 64"
  shows "of_u64 (a + b) = of_u64 a + of_u64 b"
  unfolding of_u64_def using unat_weight_sum [OF assms] by (simp only: of_nat_add)

text \<open>
  The sum of two weights is the 64-bit sum the code computes; it is zero for two weights of
  \<open>2 ^ 63\<close>.
\<close>

lemma weight_sum_wraps: "(2 ^ 63 :: 64 word) + 2 ^ 63 = 0"
  by simp

text \<open>
  In exact arithmetic the mean that \<^verbatim>\<open>centroid::add\<close> computes is the weighted average
  \<open>(w1 * m1 + w2 * m2) / (w1 + w2)\<close> whenever the sum of the weights is positive and does
  not wrap around; when it wraps around the two differ.
\<close>

lemma centroid_add_weighted_average:
  assumes "unat (weight a) + unat (weight b) < 2 ^ 64" and "0 < weight a + weight b"
  shows "mean (centroid_add a b)
       = (of_u64 (weight a) * mean a + of_u64 (weight b) * mean b)
           / (of_u64 (weight a) + of_u64 (weight b))"
proof -
  have s: "of_u64 (weight a + weight b) = of_u64 (weight a) + of_u64 (weight b)"
    using assms(1) by (rule of_u64_add)
  have "of_u64 (weight a + weight b) \<noteq> 0"
    using assms(2) by (simp add: of_u64_0_iff word_greater_zero_iff)
  then have W: "of_u64 (weight a) + of_u64 (weight b) \<noteq> 0" unfolding s .
  define W where "W = of_u64 (weight a) + of_u64 (weight b)"
  have "mean (centroid_add a b) = mean a + (mean b - mean a) * of_u64 (weight b) / W"
    by (simp add: centroid_add_fields s W_def)
  also have "\<dots> = (W * mean a + (mean b - mean a) * of_u64 (weight b)) / W"
    using W by (simp add: W_def add_divide_distrib)
  also have "W * mean a + (mean b - mean a) * of_u64 (weight b)
      = of_u64 (weight a) * mean a + of_u64 (weight b) * mean b"
    by (simp add: W_def algebra_simps)
  finally show ?thesis by (simp add: W_def)
qed

lemma centroid_add_not_weighted_average:
  "mean (centroid_add \<lparr>mean = 1, weight = 18446744073709551615\<rparr> \<lparr>mean = 1, weight = 2\<rparr>) = 1"
  "(of_u64 18446744073709551615 * 1 + of_u64 2 * 1) / of_u64 (18446744073709551615 + 2)
     = 18446744073709551617"
  by (simp_all add: centroid_add_fields of_u64_def)

text \<open>
  In \<^verbatim>\<open>double\<close> arithmetic the difference of two means can leave the range of the type:
  adding a centroid at \<open>2 ^ 1023\<close> to one at \<open>- (2 ^ 1023)\<close>, each of weight 1, stores an
  infinity, which is not between the two means, and adding a third centroid at \<open>2 ^ 1023\<close>
  to the result stores a NaN. The statements about the means of merged centroids below are
  statements in exact arithmetic.
\<close>

lemma add_mean_double_overflow:
  "add_mean_double (Finite (- (double_range / 2))) (Finite (double_range / 2)) 1 2 = PosInf"
  "add_mean_double PosInf (Finite (double_range / 2)) 1 3 = QuietNaN"
  by (simp_all add: add_mean_double_def double_sub_def double_result_def double_infinity_def
      of_u64_def)



text \<open>
  Claim C10, as amended. \<^verbatim>\<open>centroid::add\<close> writes the weight before it divides by it: for
  all centroids \<open>a\<close> and \<open>b\<close> with \<open>0 < a.weight + b.weight < 2 ^ 64\<close>, a sum that does
  not wrap around, the weight of the result is the combined weight, the mean update divides
  by the weight of the result, and this divisor is not zero; adding a centroid \<open>b\<close> of
  weight zero to such an \<open>a\<close> leaves the mean and the weight of \<open>a\<close> unchanged (in exact
  arithmetic).
\<close>

theorem centroid_add_divisor:
  assumes "0 < unat (weight a) + unat (weight b)"
    and "unat (weight a) + unat (weight b) < 2 ^ 64"
  shows "weight (centroid_add a b) = weight a + weight b
       \<and> of_u64 (weight (centroid_add a b)) = of_u64 (weight a) + of_u64 (weight b)
       \<and> mean (centroid_add a b) =
           mean a + (mean b - mean a) * of_u64 (weight b) / of_u64 (weight (centroid_add a b))
       \<and> of_u64 (weight (centroid_add a b)) \<noteq> 0
       \<and> (weight b = 0 \<longrightarrow> centroid_add a b = a)"
proof -
  have w: "weight (centroid_add a b) = weight a + weight b"
    by (simp add: centroid_add_fields)
  have s: "of_u64 (weight a + weight b) = of_u64 (weight a) + of_u64 (weight b)"
    using assms(2) by (rule of_u64_add)
  have "0 < real (unat (weight a) + unat (weight b))"
    using assms(1) by (simp only: of_nat_0_less_iff)
  then have p: "of_u64 (weight a) + of_u64 (weight b) \<noteq> 0"
    by (simp add: of_u64_def)
  have m: "mean (centroid_add a b) =
      mean a + (mean b - mean a) * of_u64 (weight b) / of_u64 (weight (centroid_add a b))"
    by (simp add: centroid_add_fields)
  have z: "weight b = 0 \<longrightarrow> centroid_add a b = a"
    by (simp add: centroid_add_def add_mean_stmt_def add_weight_stmt_def add_mean_divisor_def
        of_u64_def)
  show ?thesis using w s p m z by simp
qed

theorem centroid_add_divisor_witness:
  "centroid_add \<lparr>mean = 1, weight = 1\<rparr> \<lparr>mean = 4, weight = 2\<rparr> = \<lparr>mean = 3, weight = 3\<rparr>
   \<and> centroid_add \<lparr>mean = 5, weight = 7\<rparr> \<lparr>mean = 9, weight = 0\<rparr> = \<lparr>mean = 5, weight = 7\<rparr>"
proof -
  let ?a = "\<lparr>mean = 1, weight = 1\<rparr>" and ?b = "\<lparr>mean = 4, weight = 2\<rparr>"
  let ?c = "\<lparr>mean = 5, weight = 7\<rparr>" and ?z = "\<lparr>mean = 9, weight = 0\<rparr>"
  have 1: "weight (centroid_add ?a ?b) = 3 \<and> mean (centroid_add ?a ?b) = 3"
    using centroid_add_divisor [of ?a ?b] by (simp add: of_u64_def)
  have 2: "centroid_add ?c ?z = ?c"
    using centroid_add_divisor [of ?c ?z] by simp
  have 3: "centroid_add ?a ?b = \<lparr>mean = 3, weight = 3\<rparr>"
    using 1 by (cases "centroid_add ?a ?b") simp
  show ?thesis using 2 3 by simp
qed

text \<open>
  The claim as the specification states it, for every pair of weights whose sum is positive,
  fails when the sum wraps around: two weights of \<open>2 ^ 63\<close> have the sum \<open>2 ^ 64\<close>, the
  field \<^verbatim>\<open>weight_\<close> is 0 after the first assignment, and the second assignment divides by
  it.
\<close>

theorem centroid_add_divisor_counterexample:
  "0 < unat (weight \<lparr>mean = 0, weight = 9223372036854775808\<rparr>)
         + unat (weight \<lparr>mean = 1, weight = 9223372036854775808\<rparr>)
   \<and> weight (centroid_add \<lparr>mean = 0, weight = 9223372036854775808\<rparr>
                            \<lparr>mean = 1, weight = 9223372036854775808\<rparr>) = 0
   \<and> add_mean_divisor (add_weight_stmt \<lparr>mean = 0, weight = 9223372036854775808\<rparr>
                            \<lparr>mean = 1, weight = 9223372036854775808\<rparr>) = 0
   \<and> centroid_add \<lparr>mean = 0, weight = 9223372036854775808\<rparr>
                   \<lparr>mean = 1, weight = 9223372036854775808\<rparr>
       = add_mean_stmt (add_weight_stmt \<lparr>mean = 0, weight = 9223372036854775808\<rparr>
                            \<lparr>mean = 1, weight = 9223372036854775808\<rparr>)
           \<lparr>mean = 1, weight = 9223372036854775808\<rparr>"
  by (simp add: centroid_add_def add_weight_stmt_def add_mean_divisor_def add_mean_stmt_def
      of_u64_def)

section \<open>Properties of the digest engine\<close>

subsection \<open>Sorting\<close>











subsection \<open>Combining centroids without wrap-around\<close>




subsection \<open>One merge pass\<close>

lemma positive_weights_set: "positive_weights cs \<longleftrightarrow> (\<forall>c \<in> set cs. 0 < weight c)"
  by (simp add: positive_weights_def list_all_iff)

lemma positive_weights_append [simp]:
  "positive_weights (xs @ ys) \<longleftrightarrow> positive_weights xs \<and> positive_weights ys"
  by (auto simp: positive_weights_set)

lemma exact_weight_append [simp]:
  "exact_weight (xs @ ys) = exact_weight xs + exact_weight ys"
  by (simp add: exact_weight_def)






subsection \<open>What a merge pass preserves\<close>

lemma merge_pass_empty_buffer: "buffer d = [] \<Longrightarrow> merge_pass kk d = d"
  by (simp add: merge_pass_def)

lemma tdigest_compress_empty_buffer: "buffer d = [] \<Longrightarrow> tdigest_compress d = d"
  by (simp add: tdigest_compress_def merge_buffered_def merge_pass_empty_buffer Let_def)










lemma merge_pass_fields:
  "buffer (merge_pass kk d) = []"
  "sketch_k (merge_pass kk d) = sketch_k d"
  "get_total_weight (merge_pass kk d) = get_total_weight d"
  by (simp_all add: merge_pass_def Let_def get_total_weight_def)

lemma tdigest_compress_eq: "tdigest_compress d = merge_pass (internal_k d) d"
  by (simp add: tdigest_compress_def merge_buffered_def Let_def merge_pass_fields
      merge_pass_empty_buffer)







subsection \<open>The operations\<close>







lemma tdigest_new_invariant:
  assumes "tdigest_new k = Inr d"
  shows "digest_invariant d" and "exact_weight (all_centroids d) = 0"
proof -
  have d: "d = tdigest_init False k None None [] 0"
    using assms by (simp add: tdigest_new_def split: if_splits)
  show "digest_invariant d"
    by (simp add: d digest_invariant_def tdigest_init_def sorted_by_mean_def
        weights_consistent_def within_range_def all_centroids_def positive_weights_def Let_def)
  show "exact_weight (all_centroids d) = 0"
    by (simp add: d tdigest_init_def all_centroids_def exact_weight_def Let_def)
qed

subsection \<open>A merge at the limit of the weight type\<close>











subsection \<open>Monotone centroids\<close>




subsection \<open>A merge pass that leaves the range of \<^verbatim>\<open>double\<close>\<close>

text \<open>
  In \<^verbatim>\<open>double\<close> arithmetic the compressed means can be out of order far below the limit of
  the weights. With \<open>k = 10\<close>, so \<open>internal_k = 20\<close>, the pass over the buffer after
  \<^verbatim>\<open>update(- 2 ^ 1023)\<close> and 19 times \<^verbatim>\<open>update(2 ^ 1023)\<close> merges the first three
  centroids: the first \<^verbatim>\<open>add\<close> stores an infinity, the second a NaN. The array is then a
  centroid of weight 3 at NaN and one of weight 17 at \<open>2 ^ 1023\<close>, and NaN is not below
  or equal to any number. In exact arithmetic the first mean is \<open>2 ^ 1023 / 3\<close>.
\<close>

lemma double_range_pos: "0 < double_range"
  by (simp add: double_range_def)

lemma double_result_half [simp]:
  "double_result (double_range / 2) = Finite (double_range / 2)"
  "double_result 0 = Finite 0"
  "double_result double_range = PosInf"
  using double_range_pos by (simp_all add: double_result_def)

lemma overflow_add_1:
  "centroid_add_double \<lparr>mean_double = Finite (- (double_range / 2)), weight_double = 1\<rparr>
       \<lparr>mean_double = Finite (double_range / 2), weight_double = 1\<rparr>
     = \<lparr>mean_double = PosInf, weight_double = 2\<rparr>"
  by (simp add: centroid_add_double_def add_mean_double_def double_sub_def double_infinity_def
      of_u64_def)

lemma overflow_add_2:
  "centroid_add_double \<lparr>mean_double = PosInf, weight_double = 2\<rparr>
       \<lparr>mean_double = Finite (double_range / 2), weight_double = 1\<rparr>
     = \<lparr>mean_double = QuietNaN, weight_double = 3\<rparr>"
  by (simp add: centroid_add_double_def add_mean_double_def double_sub_def double_infinity_def
      of_u64_def)

lemma overflow_add_tie:
  assumes "j + 1 \<noteq> 0"
  shows "centroid_add_double \<lparr>mean_double = Finite (double_range / 2), weight_double = j\<rparr>
       \<lparr>mean_double = Finite (double_range / 2), weight_double = 1\<rparr>
     = \<lparr>mean_double = Finite (double_range / 2), weight_double = j + 1\<rparr>"
  using assms
  by (simp add: centroid_add_double_def add_mean_double_def double_sub_def of_u64_0_iff)

lemma stable_sort_Cons: "stable_sort lt (x # xs) = insort_cmp lt x (stable_sort lt xs)"
  by (simp add: stable_sort_def)

lemma stable_sort_replicate:
  assumes "\<not> lt b b"
  shows "stable_sort lt (replicate n b) = replicate n b"
proof (induction n)
  case 0
  then show ?case by (simp add: stable_sort_def)
next
  case (Suc n)
  have "insort_cmp lt b (replicate n b) = b # replicate n b"
    using assms by (cases n) simp_all
  then show ?case by (simp add: stable_sort_Cons Suc.IH)
qed

lemma overflow_sorted:
  "stable_sort centroid_cmp_double overflow_buffer = overflow_buffer"
proof -
  let ?b = "\<lparr>mean_double = Finite (double_range / 2), weight_double = 1\<rparr>"
  have "stable_sort centroid_cmp_double (replicate 19 ?b) = replicate 19 ?b"
    by (rule stable_sort_replicate) (simp add: centroid_cmp_double_def)
  moreover have "replicate 19 ?b = ?b # replicate 18 ?b"
    by (simp add: eval_nat_numeral)
  ultimately show ?thesis
    using double_range_pos
    by (simp add: overflow_buffer_def stable_sort_Cons centroid_cmp_double_def)
qed

lemma normalizer_20_20: "scale_function_normalizer 20 20 = 5 / 6"
  by (simp add: scale_function_normalizer_def scale_function_z_def)

lemma overflow_merge_1:
  "should_merge_double 20 (5 / 6) 0 ql
     \<lparr>mean_double = Finite (- (double_range / 2)), weight_double = 1\<rparr>
     \<lparr>mean_double = Finite (double_range / 2), weight_double = 1\<rparr>"
  by (simp add: should_merge_double_def USE_WEIGHT_LIMIT_def scale_function_max_def of_u64_def
      Let_def)

lemma overflow_merge_2:
  "should_merge_double 20 (5 / 6) 0 ql
     \<lparr>mean_double = PosInf, weight_double = 2\<rparr>
     \<lparr>mean_double = Finite (double_range / 2), weight_double = 1\<rparr>"
  by (simp add: should_merge_double_def USE_WEIGHT_LIMIT_def scale_function_max_def of_u64_def
      Let_def)

lemma overflow_merge_3:
  "\<not> should_merge_double 20 (5 / 6) 0 ql
     \<lparr>mean_double = QuietNaN, weight_double = 3\<rparr>
     \<lparr>mean_double = Finite (double_range / 2), weight_double = 1\<rparr>"
  by (simp add: should_merge_double_def USE_WEIGHT_LIMIT_def scale_function_max_def of_u64_def
      Let_def)

lemma overflow_merge_tie:
  "should_merge_double n N wsf ql
     \<lparr>mean_double = Finite (double_range / 2), weight_double = j\<rparr>
     \<lparr>mean_double = Finite (double_range / 2), weight_double = 1\<rparr>"
  by (simp add: should_merge_double_def)

lemma overflow_ties:
  assumes "unat j + m < 2 ^ 64"
  shows "coalesce_double n N wsf ql
       \<lparr>mean_double = Finite (double_range / 2), weight_double = j\<rparr>
       (replicate m \<lparr>mean_double = Finite (double_range / 2), weight_double = 1\<rparr>)
     = [\<lparr>mean_double = Finite (double_range / 2), weight_double = j + of_nat m\<rparr>]"
  using assms
proof (induction m arbitrary: j)
  case 0
  then show ?case by simp
next
  case (Suc m)
  have "unat j + 1 < 2 ^ 64" using Suc.prems by simp
  then have u: "unat (j + 1) = unat j + 1"
    using unat_weight_sum [of j 1] by simp
  then have nz: "j + 1 \<noteq> 0" by (metis Suc_eq_plus1 nat.distinct(1) unat_0 add.commute)
  have "unat (j + 1) + m < 2 ^ 64" using Suc.prems u by simp
  from Suc.IH [OF this] show ?case
    by (simp add: overflow_merge_tie overflow_add_tie [OF nz] add.assoc)
qed

lemma overflow_merge_result:
  "merge_result_double 20 False 20 overflow_buffer
     = [\<lparr>mean_double = QuietNaN, weight_double = 3\<rparr>,
        \<lparr>mean_double = Finite (double_range / 2), weight_double = 17\<rparr>]"
proof -
  let ?a = "\<lparr>mean_double = Finite (- (double_range / 2)), weight_double = 1\<rparr>"
  let ?b = "\<lparr>mean_double = Finite (double_range / 2), weight_double = 1\<rparr>"
  have r: "replicate 19 ?b = ?b # ?b # ?b # replicate 16 ?b"
    by (simp add: eval_nat_numeral)
  have t: "coalesce_double 20 (5 / 6) 3 ql ?b (replicate 16 ?b)
      = [\<lparr>mean_double = Finite (double_range / 2), weight_double = 17\<rparr>]" for ql
    using overflow_ties [of 1 16 20 "5 / 6" 3 ql] by simp
  have u: "of_u16 20 = 20" "of_u64 20 = 20" "of_u64 3 = 3"
    by (simp_all add: of_u16_def of_u64_def)
  have c: "coalesce_double 20 (5 / 6) 0 ql ?a (replicate 19 ?b)
      = [\<lparr>mean_double = QuietNaN, weight_double = 3\<rparr>,
         \<lparr>mean_double = Finite (double_range / 2), weight_double = 17\<rparr>]" for ql
    by (simp add: r overflow_merge_1 overflow_add_1 overflow_merge_2 overflow_add_2
        overflow_merge_3 t u USE_WEIGHT_LIMIT_def Let_def)
  have s: "stable_sort centroid_cmp_double overflow_buffer = ?a # replicate 19 ?b"
    by (simp only: overflow_sorted) (simp only: overflow_buffer_def)
  show ?thesis
    by (simp add: merge_result_double_def s u normalizer_20_20 c Let_def)
qed

lemma overflow_not_sorted:
  "\<not> double_le QuietNaN (Finite (double_range / 2))"
  by simp

subsection \<open>The empty digest\<close>

text \<open>
  Claim C7. On a freshly constructed digest \<open>is_empty\<close> is true, the total weight is 0,
  \<open>get_rank v\<close> is NaN for every value \<open>v\<close>, and \<open>get_quantile r\<close> is NaN for every rank
  \<open>r\<close> in \<open>[0, 1]\<close>.
\<close>

theorem empty_digest_queries:
  assumes "tdigest_new k = Inr d"
  shows "is_empty d
       \<and> get_total_weight d = 0
       \<and> get_rank interpolate_rank d v = NaN
       \<and> (0 \<le> r \<and> r \<le> 1 \<longrightarrow> get_quantile interpolate_quantile d r = Inr NaN)"
proof -
  have d: "d = tdigest_init False k None None [] 0"
    using assms by (simp add: tdigest_new_def split: if_splits)
  have e: "is_empty d" and b: "buffer d = []" and w: "get_total_weight d = 0"
    by (simp_all add: d tdigest_init_def is_empty_def get_total_weight_def Let_def)
  have c: "tdigest_compress d = d"
    using b by (rule tdigest_compress_empty_buffer)
  show ?thesis
    using e w by (simp add: get_rank_def get_quantile_def c Let_def)
qed

theorem empty_digest_queries_witness:
  "tdigest_new 100 = Inr (tdigest_init False 100 None None [] 0)
   \<and> is_empty (tdigest_init False 100 None None [] 0)
   \<and> get_total_weight (tdigest_init False 100 None None [] 0) = 0
   \<and> get_rank (\<lambda>d v. 0) (tdigest_init False 100 None None [] 0) 0 = NaN
   \<and> get_quantile (\<lambda>d r. 0) (tdigest_init False 100 None None [] 0) (1 / 2) = Inr NaN"
proof -
  have n: "tdigest_new 100 = Inr (tdigest_init False 100 None None [] 0)"
    by (simp add: tdigest_new_def MIN_K_def)
  from empty_digest_queries [OF n, of "\<lambda>d v. 0" 0 "1 / 2" "\<lambda>d r. 0"] n
  show ?thesis by simp
qed

section \<open>Properties of the codec\<close>

subsection \<open>Fields\<close>

lemma length_le_bytes [simp]: "length (le_bytes n v) = n"
  by (induction n arbitrary: v) simp_all

lemma from_le_le_bytes: "v < 256 ^ n \<Longrightarrow> from_le (le_bytes n v) = v"
proof (induction n arbitrary: v)
  case 0
  then show ?case by simp
next
  case (Suc n)
  have "v div 256 < 256 ^ n" using Suc.prems by (simp add: less_mult_imp_div_less)
  then have "from_le (le_bytes n (v div 256)) = v div 256" by (rule Suc.IH)
  moreover have "unat (of_nat (v mod 256) :: byte) = v mod 256"
    by (simp add: unat_of_nat)
  ultimately show ?case by simp
qed

lemma from_le_u16: "(of_nat (from_le (le_bytes 2 (unat (k :: 16 word)))) :: 16 word) = k"
proof -
  have "unat k < 256 ^ 2" using unsigned_less [of k, where ?'a = nat] by simp
  then show ?thesis by (simp add: from_le_le_bytes)
qed

lemma from_le_u64: "(of_nat (from_le (le_bytes 8 (unat (w :: 64 word)))) :: 64 word) = w"
proof -
  have "unat w < 256 ^ 8" using unsigned_less [of w, where ?'a = nat] by simp
  then show ?thesis by (simp add: from_le_le_bytes)
qed

lemma from_le_u32: "n < 2 ^ 32 \<Longrightarrow> from_le (le_bytes 4 n) = n"
  by (rule from_le_le_bytes) simp

lemma length_concat_fixed:
  assumes "\<forall>x \<in> set xs. length (f x) = sz"
  shows "length (concat (map f xs)) = length xs * sz"
  using assms by (induction xs) simp_all

lemma chunks_concat:
  assumes "\<forall>x \<in> set xs. length (f x) = sz"
  shows "chunks (length xs) sz (concat (map f xs) @ rest) = map f xs"
  using assms by (induction xs) simp_all

lemma read_means_encoded:
  assumes "\<forall>c \<in> set cs. representable fmt (Some (mean c))"
  shows "read_means fmt (map (\<lambda>c. encode_F fmt (Some (mean c))) cs) = Some (map mean cs)"
  using assms by (induction cs) (simp_all add: representable_def)

lemma weights_decoded:
  "map (\<lambda>b. (of_nat (from_le b) :: 64 word)) (map (\<lambda>c. le_bytes 8 (unat (weight c))) cs)
     = map weight cs"
  by (induction cs) (simp_all add: from_le_u64)

lemma centroids_rebuilt:
  "map (\<lambda>(m, w). \<lparr>mean = m, weight = w\<rparr>) (zip (map mean cs) (map weight cs)) = cs"
  by (induction cs) simp_all

lemma flags_byte_bits:
  "bit (flags_byte em rm) 0 \<longleftrightarrow> em"
  "bit (flags_byte em rm) (Suc 0) \<longleftrightarrow> rm"
  "drop_bit 2 (flags_byte em rm) = 0"
  by (cases em; cases rm; simp add: flags_byte_def)+

subsection \<open>Reading what was written\<close>

lemma is_empty_flags [simp]:
  "flags_value IS_EMPTY = 0" "flags_value REVERSE_MERGE = Suc 0"
  by simp_all

lemma deserialize_preamble:
  shows "deserialize fmt dc (preamble d @ body)
     = (if is_empty d then Inr (tdigest_init (reverse_merge d) (sketch_k d) None None [] 0)
        else read_body fmt (reverse_merge d) (sketch_k d) body)"
proof -
  have k: "take 2 (le_bytes 2 (unat (sketch_k d)) @ 0 # 0 # body) = le_bytes 2 (unat (sketch_k d))"
    by simp
  have r: "drop 4 (le_bytes 2 (unat (sketch_k d)) @ 0 # 0 # body) = body"
    by simp
  show ?thesis
    by (simp add: deserialize_def preamble_def k r from_le_u16 flags_byte_bits
        SKETCH_TYPE_def COMPAT_DOUBLE_def COMPAT_FLOAT_def SERIAL_VERSION_def
        PREAMBLE_LONGS_EMPTY_def PREAMBLE_LONGS_NON_EMPTY_def Let_def
        del: le_bytes.simps)
qed

lemma read_body_written:
  assumes ne: "centroids d \<noteq> []"
    and len: "length (centroids d) < 2 ^ 32"
    and lo: "representable fmt (min_value d)"
    and hi: "representable fmt (max_value d)"
    and ms: "\<forall>c \<in> set (centroids d). representable fmt (Some (mean c))"
    and sum: "sum_list (map weight (centroids d)) = get_total_weight d"
  shows "read_body fmt rm k
           (le_bytes 4 (length (centroids d))
            @ le_bytes 4 (length (buffer d))
            @ le_bytes 8 (unat (get_total_weight d))
            @ encode_F fmt (min_value d)
            @ encode_F fmt (max_value d)
            @ concat (map (\<lambda>c. encode_F fmt (Some (mean c))) (centroids d))
            @ concat (map (\<lambda>c. le_bytes 8 (unat (weight c))) (centroids d)))
         = Inr (tdigest_init rm k (min_value d) (max_value d) (centroids d) (get_total_weight d))"
proof -
  define cs where "cs = centroids d"
  define sz where "sz = sizeof_F fmt"
  define L where "L = le_bytes 4 (length cs)"
  define B where "B = le_bytes 4 (length (buffer d))"
  define W where "W = le_bytes 8 (unat (get_total_weight d))"
  define MN where "MN = encode_F fmt (min_value d)"
  define MX where "MX = encode_F fmt (max_value d)"
  define MS where "MS = concat (map (\<lambda>c. encode_F fmt (Some (mean c))) cs)"
  define WS where "WS = concat (map (\<lambda>c. le_bytes 8 (unat (weight c))) cs)"
  define payload where "payload = MN @ MX @ MS @ WS"
  define body where "body = L @ B @ W @ payload"
  have lens: "length L = 4" "length B = 4" "length W = 8" "length MN = sz" "length MX = sz"
    using lo hi by (simp_all add: L_def B_def W_def MN_def MX_def representable_def sz_def)
  have lMS: "length MS = length cs * sz"
    unfolding MS_def using ms
    by (intro length_concat_fixed) (simp add: representable_def sz_def cs_def)
  have lWS: "length WS = length cs * 8"
    unfolding WS_def by (intro length_concat_fixed) simp
  have 1: "take 4 body = L" by (simp add: body_def lens)
  have 2: "take 8 (drop 8 body) = W" by (simp add: body_def lens)
  have 3: "drop 16 body = payload" by (simp add: body_def lens)
  have 4: "take sz payload = MN" by (simp add: payload_def lens)
  have 5: "take sz (drop sz payload) = MX" by (simp add: payload_def lens)
  have 6: "drop (2 * sz) payload = MS @ WS" by (simp add: payload_def lens)
  have 7: "drop (2 * sz + length cs * sz) payload = WS" by (simp add: payload_def lens lMS)
  have 8: "length body = 16 + length payload" by (simp add: body_def lens)
  have 9: "length payload = 2 * sz + length cs * sz + length cs * 8"
    by (simp add: payload_def lens lMS lWS)
  have n: "from_le L = length cs"
    unfolding L_def using len by (intro from_le_u32) (simp add: cs_def)
  have w: "(of_nat (from_le W) :: 64 word) = get_total_weight d"
    by (simp add: W_def from_le_u64)
  have c1: "chunks (length cs) sz (MS @ WS) = map (\<lambda>c. encode_F fmt (Some (mean c))) cs"
    unfolding MS_def using ms
    by (intro chunks_concat) (simp add: representable_def sz_def cs_def)
  have c2: "chunks (length cs) 8 WS = map (\<lambda>c. le_bytes 8 (unat (weight c))) cs"
    using chunks_concat [of cs "\<lambda>c. le_bytes 8 (unat (weight c))" 8 "[]"]
    by (simp add: WS_def)
  have rm: "read_means fmt (map (\<lambda>c. encode_F fmt (Some (mean c))) cs) = Some (map mean cs)"
    using ms by (intro read_means_encoded) (simp add: cs_def)
  have d1: "decode_F fmt MN = min_value d" and d2: "decode_F fmt MX = max_value d"
    using lo hi by (simp_all add: MN_def MX_def representable_def)
  have wd: "((\<lambda>b. (of_nat (from_le b) :: 64 word)) \<circ> (\<lambda>c. le_bytes 8 (unat (weight c)))) = weight"
    by (simp add: fun_eq_iff from_le_u64 del: le_bytes.simps)
  have "read_body fmt rm k body
      = Inr (tdigest_init rm k (min_value d) (max_value d) cs (get_total_weight d))"
    using ne sum
    by (simp add: read_body_def 1 2 3 4 5 6 7 8 9 n w c1 c2 rm d1 d2 wd
        centroids_rebuilt Let_def sz_def [symmetric] cs_def [symmetric])
  then show ?thesis
    by (simp add: body_def payload_def L_def B_def W_def MN_def MX_def MS_def WS_def cs_def)
qed

lemma deserialize_written:
  assumes "buffer d = []"
    and "length (centroids d) < 2 ^ 32"
    and "list_all (representable fmt) (wire_values d)"
    and "sum_list (map weight (centroids d)) = get_total_weight d"
  shows "deserialize fmt dc (write_digest fmt d)
     = Inr (if is_empty d then tdigest_init (reverse_merge d) (sketch_k d) None None [] 0
            else tdigest_init (reverse_merge d) (sketch_k d) (min_value d) (max_value d)
                   (centroids d) (get_total_weight d))"
proof (cases "is_empty d")
  case True
  then show ?thesis
    using deserialize_preamble [of fmt dc d "[]"] by (simp add: write_digest_def)
next
  case False
  then have ne: "centroids d \<noteq> []" using assms(1) by (simp add: is_empty_def)
  have "representable fmt (min_value d)" and "representable fmt (max_value d)"
    and "\<forall>c \<in> set (centroids d). representable fmt (Some (mean c))"
    using assms(3) False by (simp_all add: wire_values_def list_all_iff)
  from read_body_written [OF ne assms(2) this assms(4)] False
  show ?thesis
    by (simp add: write_digest_def deserialize_preamble)
qed

lemma restored_fields:
  "buffer (tdigest_init rm k lo hi cs n) = []"
  "centroids (tdigest_init rm k lo hi cs n) = cs"
  "reverse_merge (tdigest_init rm k lo hi cs n) = rm"
  "sketch_k (tdigest_init rm k lo hi cs n) = k"
  "min_value (tdigest_init rm k lo hi cs n) = lo"
  "max_value (tdigest_init rm k lo hi cs n) = hi"
  "get_total_weight (tdigest_init rm k lo hi cs n) = n"
  "is_empty (tdigest_init rm k lo hi cs n) \<longleftrightarrow> cs = []"
  by (simp_all add: tdigest_init_def get_total_weight_def is_empty_def Let_def)

text \<open>
  Every digest that the private constructor builds from a non-empty list of centroids whose
  weights add up to the declared total weight is what \<^verbatim>\<open>deserialize\<close> returns for some bytes.
\<close>

lemma deserialize_constructed:
  assumes "cs \<noteq> []"
    and "length cs < 2 ^ 32"
    and "representable fmt lo" and "representable fmt hi"
    and "\<forall>c \<in> set cs. representable fmt (Some (mean c))"
    and "sum_list (map weight cs) = n"
  shows "deserialize fmt dc (write_digest fmt (tdigest_init rm k lo hi cs n))
     = Inr (tdigest_init rm k lo hi cs n)"
proof -
  let ?d = "tdigest_init rm k lo hi cs n"
  have "list_all (representable fmt) (wire_values ?d)"
    using assms(1,3,4,5) by (simp add: wire_values_def restored_fields list_all_iff)
  from deserialize_written [of ?d fmt dc, OF _ _ this] assms(1,2,6)
  show ?thesis by (simp add: restored_fields)
qed









subsection \<open>Round trip\<close>



subsection \<open>A digest with one observation\<close>

lemma le_bytes_numeral:
  "le_bytes (numeral k) v = of_nat (v mod 256) # le_bytes (pred_numeral k) (v div 256)"
  by (subst numeral_eq_Suc) (rule le_bytes.simps(2))





lemma single_update:
  "tdigest_update 42 (tdigest_init False 100 None None [] 0)
     = \<lparr>reverse_merge = False, sketch_k = 100, internal_k = 200,
        min_value = Some 42, max_value = Some 42,
        centroids_capacity = 400, centroids = [], centroids_weight = 0,
        buffer_capacity = 2000, buffer = [\<lparr>mean = 42, weight = 1\<rparr>], buffered_weight = 1\<rparr>"
  by (simp add: tdigest_update_def append_buffer_def tdigest_init_def
      USE_TWO_LEVEL_COMPRESSION_def lower_to_def raise_to_def Let_def)

lemma single_update_compress:
  "tdigest_compress (tdigest_update 42 (tdigest_init False 100 None None [] 0))
     = \<lparr>reverse_merge = True, sketch_k = 100, internal_k = 200,
        min_value = Some 42, max_value = Some 42,
        centroids_capacity = 400, centroids = [\<lparr>mean = 42, weight = 1\<rparr>],
        centroids_weight = 1,
        buffer_capacity = 2000, buffer = [], buffered_weight = 0\<rparr>"
  by (simp add: tdigest_compress_eq single_update merge_pass_def merge_result_def merge_scan_def
      sorted_buffer_def sort_reversed_def stable_sort_def USE_ALTERNATING_SORT_def
      lower_to_def raise_to_def Let_def)

lemma single_update_bytes:
  "serialize integer_format (tdigest_update 42 (tdigest_init False 100 None None [] 0)) =
     Inr [2, 1, 20, 2, 100, 0, 0, 0,
          1, 0, 0, 0, 0, 0, 0, 0,
          1, 0, 0, 0, 0, 0, 0, 0,
          0, 42, 0, 0, 0, 0, 0, 0, 0,
          0, 42, 0, 0, 0, 0, 0, 0, 0,
          0, 42, 0, 0, 0, 0, 0, 0, 0,
          1, 0, 0, 0, 0, 0, 0, 0]"
  by (simp add: serialize_def single_update_compress write_digest_def preamble_def is_empty_def
      flags_byte_def get_total_weight_def integer_format_def le_bytes_numeral
      PREAMBLE_LONGS_NON_EMPTY_def SERIAL_VERSION_def SKETCH_TYPE_def Let_def)


subsection \<open>Serializing at the limit of the weight type\<close>













subsection \<open>Reserved constants\<close>

lemma write_digest_header:
  "\<exists>p rest. write_digest fmt d =
      p # SERIAL_VERSION # SKETCH_TYPE # flags_byte (is_empty d) (reverse_merge d) # rest"
  by (simp add: write_digest_def preamble_def)

text \<open>
  Claim C8. The reserved constants are \<open>SERIAL_VERSION = 1\<close>, \<open>SKETCH_TYPE = 20\<close>,
  \<open>COMPAT_DOUBLE = 1\<close> and \<open>COMPAT_FLOAT = 2\<close>; the enumerators \<open>IS_EMPTY\<close> and
  \<open>REVERSE_MERGE\<close> are the positions 0 and 1; bit 0 of the flags byte is \<open>is_empty\<close> and
  bit 1 is \<open>reverse_merge\<close>; and a serialized digest carries the serial version, the
  sketch type and the flags byte of the compressed digest at the offsets 1, 2 and 3.
\<close>

theorem reserved_constants:
  "SERIAL_VERSION = 1 \<and> SKETCH_TYPE = 20 \<and> COMPAT_DOUBLE = 1 \<and> COMPAT_FLOAT = 2
   \<and> flags_value IS_EMPTY = 0 \<and> flags_value REVERSE_MERGE = 1
   \<and> (bit (flags_byte em rm) 0 \<longleftrightarrow> em)
   \<and> (bit (flags_byte em rm) 1 \<longleftrightarrow> rm)
   \<and> (serialize fmt d = Inr bs \<longrightarrow>
        bs ! 1 = SERIAL_VERSION \<and> bs ! 2 = SKETCH_TYPE
        \<and> bs ! 3 = flags_byte (is_empty (tdigest_compress d))
                      (reverse_merge (tdigest_compress d)))"
proof -
  have "bs ! 1 = SERIAL_VERSION \<and> bs ! 2 = SKETCH_TYPE
        \<and> bs ! 3 = flags_byte (is_empty (tdigest_compress d))
                      (reverse_merge (tdigest_compress d))"
    if "serialize fmt d = Inr bs"
  proof -
    from that have "bs = write_digest fmt (tdigest_compress d)"
      by (auto simp: serialize_def Let_def split: if_splits)
    with write_digest_header [of fmt "tdigest_compress d"] show ?thesis
      by auto
  qed
  then show ?thesis
    by (simp add: SERIAL_VERSION_def SKETCH_TYPE_def COMPAT_DOUBLE_def COMPAT_FLOAT_def
        flags_byte_bits)
qed

theorem reserved_constants_witness:
  "[2, 1, 20, 2, 100, 0, 0, 0,
    1, 0, 0, 0, 0, 0, 0, 0,
    1, 0, 0, 0, 0, 0, 0, 0,
    0, 42, 0, 0, 0, 0, 0, 0, 0,
    0, 42, 0, 0, 0, 0, 0, 0, 0,
    0, 42, 0, 0, 0, 0, 0, 0, 0,
    1, 0, 0, 0, 0, 0, 0, (0 :: byte)] ! 3 = flags_byte False True
   \<and> \<not> bit (flags_byte False True) 0
   \<and> bit (flags_byte False True) 1"
proof -
  let ?d = "tdigest_update 42 (tdigest_init False 100 None None [] 0)"
  let ?bs = "[2, 1, 20, 2, 100, 0, 0, 0,
    1, 0, 0, 0, 0, 0, 0, 0,
    1, 0, 0, 0, 0, 0, 0, 0,
    0, 42, 0, 0, 0, 0, 0, 0, 0,
    0, 42, 0, 0, 0, 0, 0, 0, 0,
    0, 42, 0, 0, 0, 0, 0, 0, 0,
    1, 0, 0, 0, 0, 0, 0, (0 :: byte)]"
  have s: "serialize integer_format ?d = Inr ?bs" by (rule single_update_bytes)
  have c: "is_empty (tdigest_compress ?d) = False" "reverse_merge (tdigest_compress ?d) = True"
    by (simp_all add: single_update_compress is_empty_def)
  from reserved_constants [of False True integer_format ?d ?bs] s
  have "?bs ! 3 = flags_byte (is_empty (tdigest_compress ?d)) (reverse_merge (tdigest_compress ?d))"
    and "\<not> bit (flags_byte False True) 0" and "bit (flags_byte False True) 1"
    by blast+
  then show ?thesis by (simp only: c simp_thms)
qed

end
